theory Spec2Isabelle
  imports Complex_Main
begin

section \<open>The net of an elliptical prism: model of \<open>elipticalprismnet29-11-24.py\<close>\<close>

text \<open>
  The script computes, with numpy, two sinusoidal cut lines over the unrolled perimeter of
  an ellipse, clips them to the height of the prism and passes them to matplotlib.

  Modelling decisions.
  \<^item> numpy's float64 arithmetic is idealised as arithmetic on \<^typ>\<open>real\<close>: rounding,
    overflow, infinities and NaN are outside this model. (The one claim that rounding
    decides, the value of cut line 2 at \<open>t = 0\<close> for the constants of the script, is
    settled on a second model of that value with float64 rounding written out, in the
    subsection on float64.) The two places where HOL's total
    functions differ from what numpy computes are a division by \<open>perimeter = 0\<close> (HOL
    gives 0, numpy gives NaN or infinity) and the tangent of \<open>\<plusminus>90\<close> degrees (HOL gives 0,
    numpy a number of magnitude \<open>1.6e16\<close>); every theorem about values of the cut lines
    therefore assumes \<open>0 < perimeter\<close>, and the angle strictly between \<open>-90\<close> and
    \<open>90\<close> where the tangent matters.
  \<^item> The length of the ellipse's edge comes from the CadQuery geometry kernel, which is no
    part of the script: its result (an exception, or the perimeter) is a parameter. So is
    an exception raised by a numpy call after the kernel has returned (numpy raises
    OverflowError for an int constant beyond the range of float64): the \<open>try\<close> block
    sends both to the same \<open>except\<close> branch.
  \<^item> The module-level constants are the fields of the record \<open>params\<close>;
    \<open>default_params\<close> holds the values written in the script.
  \<^item> The log written through \<open>logging\<close> is explicit state, threaded through the call.
  \<^item> The model of \<open>calculate_net_geometry\<close> ends where the arrays are handed to
    matplotlib (\<open>plt.plot\<close>); drawing and saving the PDF are not modelled.
\<close>

subsection \<open>Constants of the script\<close>

record params =
  MAJOR_AXIS :: real
  MINOR_AXIS :: real
  HEIGHT :: real
  SHELL_THICKNESS :: real
  CUT1_ANGLE :: real
  CUT2_ANGLE :: real
  CUT1_START_HEIGHT :: real
  CUT2_START_HEIGHT :: real

definition default_params :: params where
  "default_params =
     \<lparr> MAJOR_AXIS = 12, MINOR_AXIS = 4, HEIGHT = 25, SHELL_THICKNESS = 1 / 10,
       CUT1_ANGLE = 45, CUT2_ANGLE = 45, CUT1_START_HEIGHT = 3, CUT2_START_HEIGHT = 1 \<rparr>"

subsection \<open>Log, exceptions and outcome\<close>

datatype level = DEBUG | INFO | ERROR

datatype message =
    Text string
  | Perimeter_calculated real
  | Error_occurred string
  | Traceback string

type_synonym log = "(level \<times> message) list"

text \<open>An exception raised by a library call, with its message.\<close>

datatype exn = Exception string

text \<open>
  How the library calls of the \<open>try\<close> block failed. \<open>Kernel_raised e\<close>: building the
  ellipse or measuring its edge (lines 46 and 47) raised \<open>e\<close>. \<open>Numpy_raised p e\<close>: the
  kernel returned the perimeter \<open>p\<close>, then a numpy call of lines 51 to 63 raised \<open>e\<close>.
\<close>

datatype failure = Kernel_raised exn | Numpy_raised real exn

text \<open>The arrays handed to \<open>plt.plot\<close>: the bottom edge and the two cut lines over \<open>t\<close>.\<close>

record plot_data =
  perimeter :: real
  samples :: "real list"
  bottom_edge_x :: "real list"
  bottom_edge_y :: "real list"
  cut1_y :: "real list"
  cut2_y :: "real list"

text \<open>
  \<open>Exit n\<close>: the \<open>except\<close> branch ran \<open>sys.exit(n)\<close>. \<open>Plot d\<close>: the \<open>try\<close> block reached
  the plotting calls with the arrays \<open>d\<close>.
\<close>

datatype outcome = is_Exit: Exit nat | is_Plot: Plot (the_Plot: plot_data)

subsection \<open>numpy functions used by the script\<close>

text \<open>\<open>np.radians\<close>: degrees to radians.\<close>

definition radians :: "real \<Rightarrow> real" where
  "radians x = x * (pi / 180)"

text \<open>
  \<open>np.linspace(start, stop, num)\<close> with the default \<open>endpoint=True\<close>: \<open>num\<close> values
  \<open>start + i * step\<close> with \<open>step = (stop - start) / (num - 1)\<close>, the last one overwritten
  by \<open>stop\<close> when \<open>num > 1\<close>.
\<close>

definition linspace :: "real \<Rightarrow> real \<Rightarrow> nat \<Rightarrow> real list" where
  "linspace start stop num =
     (let step = (stop - start) / real (num - 1);
          y = map (\<lambda>i. start + real i * step) [0..<num]
      in if num > 1 then y[num - 1 := stop] else y)"

subsection \<open>The computation of \<open>calculate_net_geometry\<close>\<close>

text \<open>Lines 54 and 55.\<close>

definition amplitude1 :: "params \<Rightarrow> real" where
  "amplitude1 c = MAJOR_AXIS c * tan (radians (CUT1_ANGLE c))"

definition amplitude2 :: "params \<Rightarrow> real" where
  "amplitude2 c = MAJOR_AXIS c * tan (radians (CUT2_ANGLE c))"

text \<open>Lines 58 and 59: the cut lines before clipping, elementwise over the array \<open>t\<close>.\<close>

definition cut1_y_unclipped :: "params \<Rightarrow> real \<Rightarrow> real list \<Rightarrow> real list" where
  "cut1_y_unclipped c p ts =
     map (\<lambda>t. CUT1_START_HEIGHT c + amplitude1 c * (1 + sin (2 * pi * t / p - pi / 2))) ts"

definition cut2_y_unclipped :: "params \<Rightarrow> real \<Rightarrow> real list \<Rightarrow> real list" where
  "cut2_y_unclipped c p ts =
     map (\<lambda>t. CUT2_START_HEIGHT c + amplitude2 c * (1 + sin (2 * pi * t / p + pi / 2))) ts"

text \<open>Lines 62 and 63: \<open>np.minimum(np.maximum(y, 0), HEIGHT)\<close>, elementwise.\<close>

definition clip :: "params \<Rightarrow> real list \<Rightarrow> real list" where
  "clip c ys = map (\<lambda>y. min (max y 0) (HEIGHT c)) ys"

text \<open>
  The function. \<open>library_calls\<close> is what the library calls of lines 46 to 63 did:
  \<open>Inr p\<close> when
  \<open>cq.Workplane("XY").ellipse(MINOR_AXIS, MAJOR_AXIS).edges().objects[0].Length()\<close>
  returned \<open>p\<close> and no numpy call raised, \<open>Inl f\<close> when one of them raised, as \<open>f\<close> says.
  Every exception goes to the one \<open>except\<close> branch, which logs it and runs
  \<open>sys.exit(1)\<close>; the script has no other exit and no check of its constants.
\<close>

definition pdf_file :: string where
  "pdf_file = ''./elipticalprism_net_export.pdf''"

definition calculate_net_geometry ::
    "params \<Rightarrow> failure + real \<Rightarrow> log \<Rightarrow> outcome \<times> log" where
  "calculate_net_geometry c library_calls lg =
     (let lg1 = lg @ [(INFO, Text ''Starting geometry calculation''),
                      (INFO, Text (''Output path: '' @ pdf_file))]
      in case library_calls of
           Inl (Kernel_raised (Exception msg)) \<Rightarrow>
             (Exit 1, lg1 @ [(ERROR, Error_occurred msg), (ERROR, Traceback msg)])
         | Inl (Numpy_raised p (Exception msg)) \<Rightarrow>
             (Exit 1, lg1 @ [(DEBUG, Perimeter_calculated p),
                             (ERROR, Error_occurred msg), (ERROR, Traceback msg)])
         | Inr p \<Rightarrow>
             (let lg2 = lg1 @ [(DEBUG, Perimeter_calculated p)];
                  t = linspace 0 p 200;
                  y1 = clip c (cut1_y_unclipped c p t);
                  y2 = clip c (cut2_y_unclipped c p t)
              in (Plot \<lparr> perimeter = p, samples = t,
                          bottom_edge_x = [0, p], bottom_edge_y = [0, 0],
                          cut1_y = y1, cut2_y = y2 \<rparr>,
                  lg2 @ [(INFO, Text ''Creating plot'')])))"

text \<open>
  The data plotted when the kernel returned the perimeter \<open>p\<close> and no numpy call raised.
\<close>

abbreviation plotted :: "params \<Rightarrow> real \<Rightarrow> log \<Rightarrow> plot_data" where
  "plotted c p lg \<equiv> the_Plot (fst (calculate_net_geometry c (Inr p) lg))"

subsection \<open>The formulas of the specification\<close>

text \<open>
  Written from the specification's section 4.1, step 3, to be compared with lines 54 to 59
  of the script.
\<close>

definition spec_amplitude :: "real \<Rightarrow> real \<Rightarrow> real" where
  "spec_amplitude majorAxis cutAngle = majorAxis * tan (radians cutAngle)"

definition spec_cutLine1_y :: "real \<Rightarrow> real \<Rightarrow> real \<Rightarrow> real \<Rightarrow> real" where
  "spec_cutLine1_y cut1StartHeight amplitude p t =
     cut1StartHeight + amplitude * (1 + sin (2 * pi * t / p - pi / 2))"

definition spec_cutLine2_y :: "real \<Rightarrow> real \<Rightarrow> real \<Rightarrow> real \<Rightarrow> real" where
  "spec_cutLine2_y cut2StartHeight amplitude p t =
     cut2StartHeight + amplitude * (1 + sin (2 * pi * t / p + pi / 2))"

subsection \<open>float64: the first value of cut line 2 with its rounding\<close>

text \<open>
  IEEE 754 binary64 with rounding to nearest, ties to even, for numbers in the normal
  range (no overflow, no subnormal numbers): \<open>rne\<close> rounds to an integer, \<open>fl64\<close> to a
  multiple of the unit in the last place of the binade of its argument.
\<close>

definition rne :: "real \<Rightarrow> int" where
  "rne x = (let f = \<lfloor>x\<rfloor>; r = x - of_int f
            in if r < 1 / 2 then f else if 1 / 2 < r then f + 1
               else if even f then f else f + 1)"

definition fl64 :: "real \<Rightarrow> real" where
  "fl64 x = (if x = 0 then 0
             else let ulp = 2 powr (of_int \<lfloor>log 2 \<bar>x\<bar>\<rfloor> - 52)
                  in of_int (rne (x / ulp)) * ulp)"

text \<open>
  Lines 54, 55, 58, 59, 62 and 63 for one sample, each arithmetic operation rounded. The
  constants are small ints, converted exactly. \<open>tan1\<close> and \<open>tan2\<close> are the float64
  numbers that \<open>np.tan(np.radians(CUT1_ANGLE))\<close> and \<open>np.tan(np.radians(CUT2_ANGLE))\<close>
  returned, \<open>s\<close> the one that \<open>np.sin\<close> returned for the sample: results of the library,
  taken as arguments. \<open>np.maximum\<close> and \<open>np.minimum\<close> return one of their operands.
\<close>

definition amplitude1_float64 :: "params \<Rightarrow> real \<Rightarrow> real" where
  "amplitude1_float64 c tan1 = fl64 (MAJOR_AXIS c * tan1)"

definition amplitude2_float64 :: "params \<Rightarrow> real \<Rightarrow> real" where
  "amplitude2_float64 c tan2 = fl64 (MAJOR_AXIS c * tan2)"

definition cut1_y_float64 :: "params \<Rightarrow> real \<Rightarrow> real \<Rightarrow> real" where
  "cut1_y_float64 c tan1 s =
     fl64 (CUT1_START_HEIGHT c + fl64 (amplitude1_float64 c tan1 * fl64 (1 + s)))"

definition cut2_y_float64 :: "params \<Rightarrow> real \<Rightarrow> real \<Rightarrow> real" where
  "cut2_y_float64 c tan2 s =
     fl64 (CUT2_START_HEIGHT c + fl64 (amplitude2_float64 c tan2 * fl64 (1 + s)))"

definition clip_float64 :: "params \<Rightarrow> real \<Rightarrow> real" where
  "clip_float64 c y = min (max y 0) (HEIGHT c)"

section \<open>Auxiliary facts\<close>

lemma length_linspace: "length (linspace a b n) = n"
  by (simp add: linspace_def Let_def)

lemma linspace_nth:
  assumes "i < n"
  shows "linspace a b n ! i =
    (if 1 < n \<and> i = n - 1 then b else a + real i * ((b - a) / real (n - 1)))"
  using assms by (simp add: linspace_def Let_def nth_list_update)

lemma t_nth: "i < 200 \<Longrightarrow> linspace 0 p 200 ! i = real i * p / 199"
  by (simp add: linspace_nth)

lemma outcome_Inr:
  "fst (calculate_net_geometry c (Inr p) lg) =
     Plot \<lparr> perimeter = p, samples = linspace 0 p 200,
            bottom_edge_x = [0, p], bottom_edge_y = [0, 0],
            cut1_y = clip c (cut1_y_unclipped c p (linspace 0 p 200)),
            cut2_y = clip c (cut2_y_unclipped c p (linspace 0 p 200)) \<rparr>"
  by (simp add: calculate_net_geometry_def Let_def)

lemma plotted_samples: "samples (plotted c p lg) = linspace 0 p 200"
  by (simp add: outcome_Inr)

lemma plotted_cut1_y:
  "cut1_y (plotted c p lg) = clip c (cut1_y_unclipped c p (linspace 0 p 200))"
  by (simp add: outcome_Inr)

lemma plotted_cut2_y:
  "cut2_y (plotted c p lg) = clip c (cut2_y_unclipped c p (linspace 0 p 200))"
  by (simp add: outcome_Inr)

lemma length_cut1_y_unclipped: "length (cut1_y_unclipped c p ts) = length ts"
  by (simp add: cut1_y_unclipped_def)

lemma length_cut2_y_unclipped: "length (cut2_y_unclipped c p ts) = length ts"
  by (simp add: cut2_y_unclipped_def)

lemma length_clip: "length (clip c ys) = length ys"
  by (simp add: clip_def)

lemma cut1_y_unclipped_nth:
  "i < length ts \<Longrightarrow> cut1_y_unclipped c p ts ! i =
     CUT1_START_HEIGHT c + amplitude1 c * (1 + sin (2 * pi * (ts ! i) / p - pi / 2))"
  by (simp add: cut1_y_unclipped_def)

lemma cut2_y_unclipped_nth:
  "i < length ts \<Longrightarrow> cut2_y_unclipped c p ts ! i =
     CUT2_START_HEIGHT c + amplitude2 c * (1 + sin (2 * pi * (ts ! i) / p + pi / 2))"
  by (simp add: cut2_y_unclipped_def)

lemma clip_nth: "i < length ys \<Longrightarrow> clip c ys ! i = min (max (ys ! i) 0) (HEIGHT c)"
  by (simp add: clip_def)

lemma sin_full_turn_minus: "p \<noteq> 0 \<Longrightarrow> sin (2 * pi * p / p - pi / 2) = - 1"
proof -
  assume "p \<noteq> 0"
  then have "2 * pi * p / p - pi / 2 = 2 * pi - pi / 2" by simp
  then show ?thesis by (simp only: sin_2pi_minus sin_pi_half)
qed

lemma sin_full_turn_plus: "p \<noteq> 0 \<Longrightarrow> sin (2 * pi * p / p + pi / 2) = 1"
proof -
  assume "p \<noteq> 0"
  then have "2 * pi * p / p + pi / 2 = pi / 2 + 2 * pi" by simp
  then show ?thesis by (simp only: sin_periodic sin_pi_half)
qed

lemma tan_radians_nonneg: "0 \<le> a \<Longrightarrow> a < 90 \<Longrightarrow> 0 \<le> tan (radians a)"
  by (cases "a = 0") (auto simp: radians_def intro!: less_imp_le tan_gt_zero)

lemma tan_radians_nonpos: "- 90 < a \<Longrightarrow> a \<le> 0 \<Longrightarrow> tan (radians a) \<le> 0"
  using tan_radians_nonneg [of "- a"] by (simp add: radians_def)

lemma tan_radians_45: "tan (radians 45) = 1"
  by (simp add: radians_def tan_45)

lemma one_plus_sin_bounds: "0 \<le> 1 + sin (x::real)" "1 + sin (x::real) \<le> 2"
  using sin_ge_minus_one [of x] sin_le_one [of x] by linarith+

lemma clip_bounds: "0 \<le> HEIGHT c \<Longrightarrow> y \<in> set (clip c ys) \<Longrightarrow> 0 \<le> y \<and> y \<le> HEIGHT c"
  by (auto simp: clip_def)

lemma t_first: "linspace 0 p 200 ! 0 = 0"
  using t_nth [of 0 p] by simp

lemma t_last: "linspace 0 p 200 ! 199 = p"
  using t_nth [of 199 p] by simp

lemma cut1_y_unclipped_first:
  "cut1_y_unclipped c p (linspace 0 p 200) ! 0 = CUT1_START_HEIGHT c"
  by (simp add: cut1_y_unclipped_nth length_linspace t_first)

lemma cut2_y_unclipped_first:
  "cut2_y_unclipped c p (linspace 0 p 200) ! 0 = CUT2_START_HEIGHT c + 2 * amplitude2 c"
  by (simp add: cut2_y_unclipped_nth length_linspace t_first)

lemma cut1_y_unclipped_last:
  "p \<noteq> 0 \<Longrightarrow> cut1_y_unclipped c p (linspace 0 p 200) ! 199 = CUT1_START_HEIGHT c"
proof -
  assume p: "p \<noteq> 0"
  have "cut1_y_unclipped c p (linspace 0 p 200) ! 199 =
      CUT1_START_HEIGHT c + amplitude1 c * (1 + sin (2 * pi * p / p - pi / 2))"
    by (simp only: cut1_y_unclipped_nth length_linspace t_last)
  then show ?thesis by (simp only: sin_full_turn_minus [OF p]) simp
qed

lemma cut2_y_unclipped_last:
  "p \<noteq> 0 \<Longrightarrow>
   cut2_y_unclipped c p (linspace 0 p 200) ! 199 = CUT2_START_HEIGHT c + 2 * amplitude2 c"
proof -
  assume p: "p \<noteq> 0"
  have "cut2_y_unclipped c p (linspace 0 p 200) ! 199 =
      CUT2_START_HEIGHT c + amplitude2 c * (1 + sin (2 * pi * p / p + pi / 2))"
    by (simp only: cut2_y_unclipped_nth length_linspace t_last)
  then show ?thesis by (simp only: sin_full_turn_plus [OF p]) simp
qed

lemma plotted_cut1_y_nth:
  "i < 200 \<Longrightarrow> cut1_y (plotted c p lg) ! i =
     min (max (cut1_y_unclipped c p (linspace 0 p 200) ! i) 0) (HEIGHT c)"
  by (simp add: plotted_cut1_y clip_nth length_cut1_y_unclipped length_linspace)

lemma plotted_cut2_y_nth:
  "i < 200 \<Longrightarrow> cut2_y (plotted c p lg) ! i =
     min (max (cut2_y_unclipped c p (linspace 0 p 200) ! i) 0) (HEIGHT c)"
  by (simp add: plotted_cut2_y clip_nth length_cut2_y_unclipped length_linspace)

lemma map_const_replicate: "map (\<lambda>_. v) xs = replicate (length xs) v"
  by (induction xs) simp_all

lemma clip_nonpositive_height:
  "HEIGHT c \<le> 0 \<Longrightarrow> clip c ys = replicate (length ys) (HEIGHT c)"
proof -
  assume h: "HEIGHT c \<le> 0"
  have "min (max y 0) (HEIGHT c) = HEIGHT c" for y using h by auto
  then show ?thesis by (simp add: clip_def map_const_replicate)
qed

lemma plotted_nonpositive_height:
  "HEIGHT c \<le> 0 \<Longrightarrow>
   cut1_y (plotted c p lg) = replicate 200 (HEIGHT c)
   \<and> cut2_y (plotted c p lg) = replicate 200 (HEIGHT c)"
  by (simp add: plotted_cut1_y plotted_cut2_y clip_nonpositive_height
      length_cut1_y_unclipped length_cut2_y_unclipped length_linspace)

lemma rne_of_int: "rne (of_int n) = n"
  by (simp add: rne_def)

lemma rne_below_half:
  assumes "of_int n \<le> x" and "x < of_int n + 1 / 2"
  shows "rne x = n"
proof -
  have f: "\<lfloor>x\<rfloor> = n" using assms by linarith
  show ?thesis using assms by (simp add: rne_def f Let_def)
qed

lemma fl64_binade:
  assumes "2 ^ e \<le> \<bar>x\<bar>" and "\<bar>x\<bar> < 2 ^ Suc e" and "e \<le> 52"
  shows "fl64 x = of_int (rne (x * 2 ^ (52 - e))) / 2 ^ (52 - e)"
proof -
  have "(0::real) < 2 ^ e" by simp
  with assms(1) have pos: "0 < \<bar>x\<bar>" by linarith
  have "2 powr (of_int (int e)) \<le> \<bar>x\<bar> \<and> \<bar>x\<bar> < 2 powr (of_int (int e + 1))"
    using assms(1,2) by (simp add: powr_realpow powr_add)
  then have fl: "\<lfloor>log 2 \<bar>x\<bar>\<rfloor> = int e"
    using floor_log_eq_powr_iff [of "\<bar>x\<bar>" 2 "int e"] pos by simp
  have u: "(2::real) powr (real e - 52) = 1 / 2 ^ (52 - e)"
  proof -
    have "(2::real) powr (real e - 52) = 2 powr (- real (52 - e))"
      using assms(3) by (simp add: of_nat_diff)
    also have "\<dots> = 1 / 2 ^ (52 - e)"
      by (simp add: powr_minus powr_realpow field_simps)
    finally show ?thesis .
  qed
  show ?thesis
    using pos by (simp add: fl64_def fl Let_def u)
qed

lemma fl64_exact:
  assumes "2 ^ e \<le> \<bar>x\<bar>" and "\<bar>x\<bar> < 2 ^ Suc e" and "e \<le> 52"
    and "x * 2 ^ (52 - e) = of_int n"
  shows "fl64 x = of_int n / 2 ^ (52 - e)"
  using fl64_binade [OF assms(1-3)] by (simp only: assms(4) rne_of_int)

lemma fl64_round_down:
  assumes "2 ^ e \<le> \<bar>x\<bar>" and "\<bar>x\<bar> < 2 ^ Suc e" and "e \<le> 52"
    and "of_int n \<le> x * 2 ^ (52 - e)" and "x * 2 ^ (52 - e) < of_int n + 1 / 2"
  shows "fl64 x = of_int n / 2 ^ (52 - e)"
  using fl64_binade [OF assms(1-3)] by (simp only: rne_below_half [OF assms(4,5)])

lemma fl64_zero: "fl64 0 = 0"
  by (simp add: fl64_def)

lemma fl64_two: "fl64 2 = 2"
  using fl64_exact [of 1 2 "2 ^ 52"] by simp

lemma fl64_three: "fl64 3 = 3"
  using fl64_exact [of 1 3 "3 * 2 ^ 51"] by simp

lemma fl64_amplitude: "fl64 (12 * (1 - 1 / 2 ^ 53)) = 12 - 1 / 2 ^ 49"
  using fl64_round_down [of 3 "12 * (1 - 1 / 2 ^ 53)" "12 * 2 ^ 49 - 1"] by simp

lemma fl64_twice_amplitude: "fl64 ((12 - 1 / 2 ^ 49) * 2) = 24 - 1 / 2 ^ 48"
  using fl64_exact [of 4 "(12 - 1 / 2 ^ 49) * 2" "24 * 2 ^ 48 - 1"] by simp

lemma fl64_sum: "fl64 (1 + (24 - 1 / 2 ^ 48)) = 25 - 1 / 2 ^ 48"
  using fl64_exact [of 4 "1 + (24 - 1 / 2 ^ 48)" "25 * 2 ^ 48 - 1"] by simp

lemma cut1_y_float64_default:
  "cut1_y_float64 default_params (1 - 1 / 2 ^ 53) (- 1) = 3"
proof -
  have "cut1_y_float64 default_params (1 - 1 / 2 ^ 53) (- 1)
      = fl64 (3 + fl64 (fl64 (12 * (1 - 1 / 2 ^ 53)) * fl64 0))"
    by (simp add: cut1_y_float64_def amplitude1_float64_def default_params_def)
  also have "\<dots> = 3"
    by (simp add: fl64_zero fl64_three)
  finally show ?thesis .
qed

lemma cut2_y_float64_default:
  "cut2_y_float64 default_params (1 - 1 / 2 ^ 53) 1 = 25 - 1 / 2 ^ 48"
proof -
  have "cut2_y_float64 default_params (1 - 1 / 2 ^ 53) 1
      = fl64 (1 + fl64 (fl64 (12 * (1 - 1 / 2 ^ 53)) * fl64 (1 + 1)))"
    by (simp add: cut2_y_float64_def amplitude2_float64_def default_params_def)
  also have "\<dots> = fl64 (1 + fl64 ((12 - 1 / 2 ^ 49) * 2))"
    by (simp only: fl64_amplitude one_add_one fl64_two)
  also have "\<dots> = 25 - 1 / 2 ^ 48"
    by (simp only: fl64_twice_amplitude fl64_sum)
  finally show ?thesis .
qed

section \<open>The claims\<close>

text \<open>
  C1. For a perimeter \<open>p > 0\<close> and cut angles strictly between \<open>-90\<close> and \<open>90\<close>
  degrees, the unclipped value of each cut line at every one of the 200 samples \<open>t\<close> is
  the specification's formula,
  \<open>cutKStartHeight + amplitude_k * (1 + sin (2 pi t / p -/+ pi / 2))\<close> with
  \<open>amplitude_k = majorAxis * tan (radians cutKAngle)\<close>; the plotted lines are these
  values clipped.
\<close>

theorem cut_lines_follow_formula:
  assumes "0 < p"
    and "- 90 < CUT1_ANGLE c" and "CUT1_ANGLE c < 90"
    and "- 90 < CUT2_ANGLE c" and "CUT2_ANGLE c < 90"
    and "i < 200"
  shows "cut1_y_unclipped c p (samples (plotted c p lg)) ! i =
           spec_cutLine1_y (CUT1_START_HEIGHT c) (spec_amplitude (MAJOR_AXIS c) (CUT1_ANGLE c))
             p (samples (plotted c p lg) ! i)
       \<and> cut2_y_unclipped c p (samples (plotted c p lg)) ! i =
           spec_cutLine2_y (CUT2_START_HEIGHT c) (spec_amplitude (MAJOR_AXIS c) (CUT2_ANGLE c))
             p (samples (plotted c p lg) ! i)
       \<and> cut1_y (plotted c p lg) = clip c (cut1_y_unclipped c p (samples (plotted c p lg)))
       \<and> cut2_y (plotted c p lg) = clip c (cut2_y_unclipped c p (samples (plotted c p lg)))"
  using assms
  by (simp add: plotted_samples plotted_cut1_y plotted_cut2_y length_linspace
      cut1_y_unclipped_nth cut2_y_unclipped_nth spec_cutLine1_y_def spec_cutLine2_y_def
      spec_amplitude_def amplitude1_def amplitude2_def)

theorem cut_lines_follow_formula_witness:
  "cut1_y_unclipped default_params 53 (samples (plotted default_params 53 [])) ! 7 =
     spec_cutLine1_y 3 (spec_amplitude 12 45) 53 (samples (plotted default_params 53 []) ! 7)
   \<and> cut2_y_unclipped default_params 53 (samples (plotted default_params 53 [])) ! 7 =
     spec_cutLine2_y 1 (spec_amplitude 12 45) 53 (samples (plotted default_params 53 []) ! 7)"
  using cut_lines_follow_formula [of 53 default_params 7 "[]"]
  by (simp add: default_params_def)

text \<open>
  C2. For valid inputs (positive axes and height, angles strictly between \<open>-90\<close> and
  \<open>90\<close> degrees, any start heights) and a perimeter \<open>p > 0\<close>, every value of the plotted
  \<open>cut1_y\<close> and \<open>cut2_y\<close> lies in the closed interval from 0 to \<open>HEIGHT\<close>: each of the
  200 values is the unclipped one, replaced by 0 when it is below 0 and by \<open>HEIGHT\<close> when
  it is above \<open>HEIGHT\<close>.
\<close>

theorem cut_lines_within_height:
  assumes "0 < p" and "0 < MAJOR_AXIS c" and "0 < MINOR_AXIS c" and "0 < HEIGHT c"
    and "- 90 < CUT1_ANGLE c" and "CUT1_ANGLE c < 90"
    and "- 90 < CUT2_ANGLE c" and "CUT2_ANGLE c < 90"
  shows "(\<forall>y \<in> set (cut1_y (plotted c p lg)) \<union> set (cut2_y (plotted c p lg)).
            0 \<le> y \<and> y \<le> HEIGHT c)
       \<and> length (cut1_y (plotted c p lg)) = 200 \<and> length (cut2_y (plotted c p lg)) = 200
       \<and> (\<forall>i < 200.
            cut1_y (plotted c p lg) ! i =
              (let y = cut1_y_unclipped c p (samples (plotted c p lg)) ! i
               in if y < 0 then 0 else if HEIGHT c < y then HEIGHT c else y)
          \<and> cut2_y (plotted c p lg) ! i =
              (let y = cut2_y_unclipped c p (samples (plotted c p lg)) ! i
               in if y < 0 then 0 else if HEIGHT c < y then HEIGHT c else y))"
proof -
  have h: "0 \<le> HEIGHT c" using assms(4) by simp
  have in_range: "\<forall>y \<in> set (cut1_y (plotted c p lg)) \<union> set (cut2_y (plotted c p lg)).
      0 \<le> y \<and> y \<le> HEIGHT c"
    using clip_bounds [OF h] by (auto simp: plotted_cut1_y plotted_cut2_y)
  have lens: "length (cut1_y (plotted c p lg)) = 200" "length (cut2_y (plotted c p lg)) = 200"
    by (simp_all add: plotted_cut1_y plotted_cut2_y length_clip length_cut1_y_unclipped
        length_cut2_y_unclipped length_linspace)
  have pointwise: "min (max y 0) (HEIGHT c) = (if y < 0 then 0 else if HEIGHT c < y then HEIGHT c else y)"
    for y using h by auto
  have vals: "\<forall>i < 200.
            cut1_y (plotted c p lg) ! i =
              (let y = cut1_y_unclipped c p (samples (plotted c p lg)) ! i
               in if y < 0 then 0 else if HEIGHT c < y then HEIGHT c else y)
          \<and> cut2_y (plotted c p lg) ! i =
              (let y = cut2_y_unclipped c p (samples (plotted c p lg)) ! i
               in if y < 0 then 0 else if HEIGHT c < y then HEIGHT c else y)"
    by (simp add: plotted_cut1_y plotted_cut2_y plotted_samples clip_nth length_cut1_y_unclipped
        length_cut2_y_unclipped length_linspace pointwise Let_def)
  from in_range lens vals show ?thesis by blast
qed

theorem cut_lines_within_height_witness:
  "0 \<le> cut1_y (plotted default_params 53 []) ! 7
   \<and> cut1_y (plotted default_params 53 []) ! 7 \<le> 25
   \<and> 0 \<le> cut2_y (plotted default_params 53 []) ! 7
   \<and> cut2_y (plotted default_params 53 []) ! 7 \<le> 25
   \<and> length (cut1_y (plotted default_params 53 [])) = 200"
proof -
  have "(\<forall>y \<in> set (cut1_y (plotted default_params 53 [])) \<union> set (cut2_y (plotted default_params 53 [])).
            0 \<le> y \<and> y \<le> HEIGHT default_params)
       \<and> length (cut1_y (plotted default_params 53 [])) = 200
       \<and> length (cut2_y (plotted default_params 53 [])) = 200"
    using cut_lines_within_height [of 53 default_params "[]"]
    by (simp add: default_params_def)
  then have "\<forall>y \<in> set (cut1_y (plotted default_params 53 [])) \<union> set (cut2_y (plotted default_params 53 [])).
            0 \<le> y \<and> y \<le> 25"
    and l1: "length (cut1_y (plotted default_params 53 [])) = 200"
    and l2: "length (cut2_y (plotted default_params 53 [])) = 200"
    by (simp_all add: default_params_def)
  moreover have "cut1_y (plotted default_params 53 []) ! 7 \<in> set (cut1_y (plotted default_params 53 []))"
    using l1 by (intro nth_mem) simp
  moreover have "cut2_y (plotted default_params 53 []) ! 7 \<in> set (cut2_y (plotted default_params 53 []))"
    using l2 by (intro nth_mem) simp
  ultimately show ?thesis by blast
qed

text \<open>
  C4. For a perimeter \<open>p > 0\<close> (what the kernel returns for positive axes), the samples
  \<open>t\<close> are exactly 200 values, the first 0, the last \<open>p\<close>, any two neighbours \<open>p / 199\<close>
  apart, and strictly increasing.
\<close>

theorem samples_evenly_spaced:
  assumes "0 < p"
  shows "length (samples (plotted c p lg)) = 200
       \<and> samples (plotted c p lg) ! 0 = 0
       \<and> hd (samples (plotted c p lg)) = 0
       \<and> samples (plotted c p lg) ! 199 = p
       \<and> last (samples (plotted c p lg)) = p
       \<and> (\<forall>i < 199. samples (plotted c p lg) ! Suc i - samples (plotted c p lg) ! i = p / 199)
       \<and> (\<forall>i j. i < j \<and> j < 200 \<longrightarrow> samples (plotted c p lg) ! i < samples (plotted c p lg) ! j)
       \<and> sorted_wrt (<) (samples (plotted c p lg))"
proof -
  let ?t = "samples (plotted c p lg)"
  have len: "length ?t = 200" by (simp add: plotted_samples length_linspace)
  have nth: "?t ! i = real i * p / 199" if "i < 200" for i
    using that by (simp add: plotted_samples t_nth)
  have first: "?t ! 0 = 0" using nth [of 0] by simp
  have lst: "?t ! 199 = p" using nth [of 199] by simp
  have ne: "?t \<noteq> []" using len by auto
  have hd0: "hd ?t = 0" using first by (simp add: hd_conv_nth [OF ne])
  have lastp: "last ?t = p" using lst len by (simp add: last_conv_nth [OF ne])
  have step: "\<forall>i < 199. ?t ! Suc i - ?t ! i = p / 199"
    by (simp add: nth field_simps)
  have incr: "?t ! i < ?t ! j" if "i < j" "j < 200" for i j
    using that assms by (simp add: nth divide_strict_right_mono)
  have "sorted_wrt (<) ?t"
    unfolding sorted_wrt_iff_nth_less using incr len by simp
  with len first hd0 lst lastp step incr show ?thesis by blast
qed

theorem samples_evenly_spaced_witness:
  "length (samples (plotted default_params 199 [])) = 200
   \<and> samples (plotted default_params 199 []) ! 0 = 0
   \<and> samples (plotted default_params 199 []) ! 199 = 199
   \<and> samples (plotted default_params 199 []) ! Suc 7 - samples (plotted default_params 199 []) ! 7 = 1
   \<and> samples (plotted default_params 199 []) ! 7 < samples (plotted default_params 199 []) ! 8"
proof -
  have *: "length (samples (plotted default_params 199 [])) = 200
       \<and> samples (plotted default_params 199 []) ! 0 = 0
       \<and> hd (samples (plotted default_params 199 [])) = 0
       \<and> samples (plotted default_params 199 []) ! 199 = 199
       \<and> last (samples (plotted default_params 199 [])) = 199
       \<and> (\<forall>i < 199. samples (plotted default_params 199 []) ! Suc i - samples (plotted default_params 199 []) ! i = 199 / 199)
       \<and> (\<forall>i j. i < j \<and> j < 200 \<longrightarrow> samples (plotted default_params 199 []) ! i < samples (plotted default_params 199 []) ! j)
       \<and> sorted_wrt (<) (samples (plotted default_params 199 []))"
    using samples_evenly_spaced [of 199 default_params "[]"] by simp
  from * have step: "\<forall>i < 199. samples (plotted default_params 199 []) ! Suc i
        - samples (plotted default_params 199 []) ! i = 199 / 199"
    and incr: "\<forall>i j. i < j \<and> j < 200 \<longrightarrow>
        samples (plotted default_params 199 []) ! i < samples (plotted default_params 199 []) ! j"
    by blast+
  from step [rule_format, of 7] incr [rule_format, of 7 8] * show ?thesis by simp
qed

text \<open>
  C6. The claim is that, with the constants of the script, the unclipped \<open>cut2_y\<close> at
  \<open>t = 0\<close> is exactly 25 and is clipped to 25 at the height ceiling. In float64
  \<open>np.tan(np.radians(45))\<close> is \<open>0.9999999999999999\<close>, the number next below 1, that is
  \<open>1 - 1 / 2 ^ 53\<close>, and \<open>np.sin\<close> returns 1 for the first sample. With these the
  unclipped value is not 25: it lies below \<open>HEIGHT\<close>, and the clipped value is not 25
  either.
\<close>

theorem default_cut2_y_is_not_25:
  "cut2_y_float64 default_params (1 - 1 / 2 ^ 53) 1 \<noteq> 25
   \<and> cut2_y_float64 default_params (1 - 1 / 2 ^ 53) 1 < HEIGHT default_params
   \<and> clip_float64 default_params (cut2_y_float64 default_params (1 - 1 / 2 ^ 53) 1) \<noteq> 25"
proof -
  have v: "cut2_y_float64 default_params (1 - 1 / 2 ^ 53) 1 = 25 - 1 / 2 ^ 48"
    by (rule cut2_y_float64_default)
  have h: "HEIGHT default_params = 25" by (simp add: default_params_def)
  show ?thesis
    unfolding v h clip_float64_def by simp
qed

text \<open>
  C6, as the code has it. With the constants of the script (major axis 12, minor axis 4,
  height 25, both angles 45 degrees, start heights 3 and 1), at the first sample \<open>t = 0\<close>
  the argument \<open>2 pi t / perimeter\<close> is 0 for every perimeter greater than 0, and the
  sines of the two cut lines are \<open>-1\<close> and 1. The unclipped \<open>cut1_y\<close> is 3, and 3
  after clipping, in float64 too. The unclipped \<open>cut2_y\<close> is
  \<open>1 + 2 * 12 * tan (radians 45)\<close>, which is 25 in exact arithmetic; in the float64
  arithmetic of the script, where the tangent is \<open>1 - 1 / 2 ^ 53\<close>, it is
  \<open>25 - 1 / 2 ^ 48\<close> (printed \<open>24.999999999999996\<close>), one rounding step below the
  ceiling, and clipping leaves it unchanged.
\<close>

theorem default_scenario_at_zero_float64:
  "sin (0 - pi / 2) = - 1 \<and> sin (0 + pi / 2) = 1
   \<and> cut1_y_float64 default_params (1 - 1 / 2 ^ 53) (- 1) = 3
   \<and> clip_float64 default_params (cut1_y_float64 default_params (1 - 1 / 2 ^ 53) (- 1)) = 3
   \<and> CUT2_START_HEIGHT default_params
       + 2 * MAJOR_AXIS default_params * tan (radians (CUT2_ANGLE default_params)) = 25
   \<and> cut2_y_float64 default_params (1 - 1 / 2 ^ 53) 1 = 25 - 1 / 2 ^ 48
   \<and> clip_float64 default_params (cut2_y_float64 default_params (1 - 1 / 2 ^ 53) 1)
       = 25 - 1 / 2 ^ 48"
proof -
  have s: "sin (0 - pi / 2) = - 1 \<and> sin (0 + pi / 2) = 1"
    by simp
  have h: "HEIGHT default_params = 25" by (simp add: default_params_def)
  have c1: "clip_float64 default_params (cut1_y_float64 default_params (1 - 1 / 2 ^ 53) (- 1)) = 3"
    unfolding cut1_y_float64_default clip_float64_def h by simp
  have exact: "CUT2_START_HEIGHT default_params
       + 2 * MAJOR_AXIS default_params * tan (radians (CUT2_ANGLE default_params)) = 25"
    by (simp add: default_params_def tan_radians_45)
  have c2: "clip_float64 default_params (cut2_y_float64 default_params (1 - 1 / 2 ^ 53) 1)
       = 25 - 1 / 2 ^ 48"
    unfolding cut2_y_float64_default clip_float64_def h by simp
  from s c1 exact c2 cut1_y_float64_default cut2_y_float64_default show ?thesis
    by blast
qed

text \<open>
  C7. For every perimeter \<open>p > 0\<close> and angles strictly between \<open>-90\<close> and \<open>90\<close> degrees,
  the first sample is \<open>t = 0\<close>, the unclipped \<open>cut1_y\<close> there is \<open>CUT1_START_HEIGHT\<close> and
  the unclipped \<open>cut2_y\<close> there is \<open>CUT2_START_HEIGHT + 2 * amplitude2\<close>.
\<close>

theorem unclipped_values_at_zero:
  assumes "0 < p"
    and "- 90 < CUT1_ANGLE c" and "CUT1_ANGLE c < 90"
    and "- 90 < CUT2_ANGLE c" and "CUT2_ANGLE c < 90"
  shows "samples (plotted c p lg) ! 0 = 0
       \<and> cut1_y_unclipped c p (samples (plotted c p lg)) ! 0 = CUT1_START_HEIGHT c
       \<and> cut2_y_unclipped c p (samples (plotted c p lg)) ! 0
           = CUT2_START_HEIGHT c + 2 * amplitude2 c
       \<and> amplitude2 c = MAJOR_AXIS c * tan (radians (CUT2_ANGLE c))"
  by (simp add: plotted_samples t_first cut1_y_unclipped_first cut2_y_unclipped_first
      amplitude2_def)

theorem unclipped_values_at_zero_witness:
  "cut1_y_unclipped default_params 53 (samples (plotted default_params 53 [])) ! 0 = 3
   \<and> cut2_y_unclipped default_params 53 (samples (plotted default_params 53 [])) ! 0
       = 1 + 2 * amplitude2 default_params"
  using unclipped_values_at_zero [of 53 default_params "[]"]
  by (simp add: default_params_def)

text \<open>
  C8. For a valid input (perimeter \<open>p > 0\<close>, positive height) a cut angle of exactly 0
  degrees gives the amplitude 0, and the plotted cut line is then constant over all 200
  samples, equal to its start height clipped to the interval from 0 to \<open>HEIGHT\<close>; with both
  angles 0 both lines are flat.
\<close>

theorem zero_angle_flat:
  assumes "0 < p" and "0 < HEIGHT c"
  shows "(CUT1_ANGLE c = 0 \<longrightarrow>
            amplitude1 c = 0
          \<and> cut1_y_unclipped c p (samples (plotted c p lg)) = replicate 200 (CUT1_START_HEIGHT c)
          \<and> cut1_y (plotted c p lg)
              = replicate 200 (min (max (CUT1_START_HEIGHT c) 0) (HEIGHT c)))
       \<and> (CUT2_ANGLE c = 0 \<longrightarrow>
            amplitude2 c = 0
          \<and> cut2_y_unclipped c p (samples (plotted c p lg)) = replicate 200 (CUT2_START_HEIGHT c)
          \<and> cut2_y (plotted c p lg)
              = replicate 200 (min (max (CUT2_START_HEIGHT c) 0) (HEIGHT c)))"
proof -
  have one: "amplitude1 c = 0
      \<and> cut1_y_unclipped c p (samples (plotted c p lg)) = replicate 200 (CUT1_START_HEIGHT c)
      \<and> cut1_y (plotted c p lg) = replicate 200 (min (max (CUT1_START_HEIGHT c) 0) (HEIGHT c))"
    if "CUT1_ANGLE c = 0"
  proof -
    have a: "amplitude1 c = 0" using that by (simp add: amplitude1_def radians_def)
    have u: "cut1_y_unclipped c p (linspace 0 p 200) = replicate 200 (CUT1_START_HEIGHT c)"
      by (simp add: cut1_y_unclipped_def a map_const_replicate length_linspace)
    show ?thesis
      by (simp add: a plotted_samples plotted_cut1_y u) (simp add: clip_def)
  qed
  have two: "amplitude2 c = 0
      \<and> cut2_y_unclipped c p (samples (plotted c p lg)) = replicate 200 (CUT2_START_HEIGHT c)
      \<and> cut2_y (plotted c p lg) = replicate 200 (min (max (CUT2_START_HEIGHT c) 0) (HEIGHT c))"
    if "CUT2_ANGLE c = 0"
  proof -
    have a: "amplitude2 c = 0" using that by (simp add: amplitude2_def radians_def)
    have u: "cut2_y_unclipped c p (linspace 0 p 200) = replicate 200 (CUT2_START_HEIGHT c)"
      by (simp add: cut2_y_unclipped_def a map_const_replicate length_linspace)
    show ?thesis
      by (simp add: a plotted_samples plotted_cut2_y u) (simp add: clip_def)
  qed
  from one two show ?thesis by blast
qed

theorem zero_angle_flat_witness:
  "cut1_y (plotted (default_params\<lparr>CUT1_ANGLE := 0, CUT2_ANGLE := 0\<rparr>) 53 []) = replicate 200 3
   \<and> cut2_y (plotted (default_params\<lparr>CUT1_ANGLE := 0, CUT2_ANGLE := 0\<rparr>) 53 []) = replicate 200 1"
  using zero_angle_flat [of 53 "default_params\<lparr>CUT1_ANGLE := 0, CUT2_ANGLE := 0\<rparr>" "[]"]
  by (simp add: default_params_def)

text \<open>
  C9. For a perimeter \<open>p > 0\<close> and angles strictly between \<open>-90\<close> and \<open>90\<close> degrees, the
  first sample is 0 and the last is \<open>p\<close>, and each cut line has the same value at both,
  before clipping and after: the first and the last point of \<open>cut1_y\<close>, and of
  \<open>cut2_y\<close>, are at the same height.
\<close>

theorem cut_lines_close_up:
  assumes "0 < p"
    and "- 90 < CUT1_ANGLE c" and "CUT1_ANGLE c < 90"
    and "- 90 < CUT2_ANGLE c" and "CUT2_ANGLE c < 90"
  shows "samples (plotted c p lg) ! 0 = 0 \<and> samples (plotted c p lg) ! 199 = p
       \<and> cut1_y_unclipped c p (samples (plotted c p lg)) ! 0
           = cut1_y_unclipped c p (samples (plotted c p lg)) ! 199
       \<and> cut2_y_unclipped c p (samples (plotted c p lg)) ! 0
           = cut2_y_unclipped c p (samples (plotted c p lg)) ! 199
       \<and> cut1_y (plotted c p lg) ! 0 = cut1_y (plotted c p lg) ! 199
       \<and> cut2_y (plotted c p lg) ! 0 = cut2_y (plotted c p lg) ! 199
       \<and> hd (cut1_y (plotted c p lg)) = last (cut1_y (plotted c p lg))
       \<and> hd (cut2_y (plotted c p lg)) = last (cut2_y (plotted c p lg))"
proof -
  have p: "p \<noteq> 0" using assms(1) by simp
  have u1: "cut1_y_unclipped c p (linspace 0 p 200) ! 0
      = cut1_y_unclipped c p (linspace 0 p 200) ! 199"
    by (simp only: cut1_y_unclipped_first cut1_y_unclipped_last [OF p])
  have u2: "cut2_y_unclipped c p (linspace 0 p 200) ! 0
      = cut2_y_unclipped c p (linspace 0 p 200) ! 199"
    by (simp only: cut2_y_unclipped_first cut2_y_unclipped_last [OF p])
  have c1: "cut1_y (plotted c p lg) ! 0 = cut1_y (plotted c p lg) ! 199"
    by (simp add: plotted_cut1_y_nth u1)
  have c2: "cut2_y (plotted c p lg) ! 0 = cut2_y (plotted c p lg) ! 199"
    by (simp add: plotted_cut2_y_nth u2)
  have l1: "length (cut1_y (plotted c p lg)) = 200"
    by (simp add: plotted_cut1_y length_clip length_cut1_y_unclipped length_linspace)
  have l2: "length (cut2_y (plotted c p lg)) = 200"
    by (simp add: plotted_cut2_y length_clip length_cut2_y_unclipped length_linspace)
  have n1: "cut1_y (plotted c p lg) \<noteq> []" using l1 by auto
  have n2: "cut2_y (plotted c p lg) \<noteq> []" using l2 by auto
  have h1: "hd (cut1_y (plotted c p lg)) = last (cut1_y (plotted c p lg))"
    using c1 l1 by (simp add: hd_conv_nth [OF n1] last_conv_nth [OF n1])
  have h2: "hd (cut2_y (plotted c p lg)) = last (cut2_y (plotted c p lg))"
    using c2 l2 by (simp add: hd_conv_nth [OF n2] last_conv_nth [OF n2])
  show ?thesis
    using u1 u2 c1 c2 h1 h2 by (simp add: plotted_samples t_first t_last)
qed

theorem cut_lines_close_up_witness:
  "cut1_y (plotted default_params 53 []) ! 0 = cut1_y (plotted default_params 53 []) ! 199
   \<and> cut2_y (plotted default_params 53 []) ! 0 = cut2_y (plotted default_params 53 []) ! 199
   \<and> samples (plotted default_params 53 []) ! 199 = 53"
  using cut_lines_close_up [of 53 default_params "[]"]
  by (simp add: default_params_def)

text \<open>
  C10. With a positive major axis and a perimeter \<open>p > 0\<close>: for a cut angle from 0
  (included) to 90 degrees (excluded) every unclipped value of that cut line lies between
  its start height and the start height plus twice the amplitude, and cut line 1 takes
  the lower bound at its first sample \<open>t = 0\<close>; for an angle between \<open>-90\<close> degrees
  (excluded) and 0 the two bounds change places.
\<close>

theorem unclipped_values_range:
  assumes "0 < p" and "0 < MAJOR_AXIS c" and "i < 200"
  shows "(0 \<le> CUT1_ANGLE c \<and> CUT1_ANGLE c < 90 \<longrightarrow>
            CUT1_START_HEIGHT c \<le> cut1_y_unclipped c p (samples (plotted c p lg)) ! i
          \<and> cut1_y_unclipped c p (samples (plotted c p lg)) ! i
              \<le> CUT1_START_HEIGHT c + 2 * amplitude1 c
          \<and> samples (plotted c p lg) ! 0 = 0
          \<and> cut1_y_unclipped c p (samples (plotted c p lg)) ! 0 = CUT1_START_HEIGHT c)
       \<and> (0 \<le> CUT2_ANGLE c \<and> CUT2_ANGLE c < 90 \<longrightarrow>
            CUT2_START_HEIGHT c \<le> cut2_y_unclipped c p (samples (plotted c p lg)) ! i
          \<and> cut2_y_unclipped c p (samples (plotted c p lg)) ! i
              \<le> CUT2_START_HEIGHT c + 2 * amplitude2 c)
       \<and> (- 90 < CUT1_ANGLE c \<and> CUT1_ANGLE c < 0 \<longrightarrow>
            CUT1_START_HEIGHT c + 2 * amplitude1 c
              \<le> cut1_y_unclipped c p (samples (plotted c p lg)) ! i
          \<and> cut1_y_unclipped c p (samples (plotted c p lg)) ! i \<le> CUT1_START_HEIGHT c)
       \<and> (- 90 < CUT2_ANGLE c \<and> CUT2_ANGLE c < 0 \<longrightarrow>
            CUT2_START_HEIGHT c + 2 * amplitude2 c
              \<le> cut2_y_unclipped c p (samples (plotted c p lg)) ! i
          \<and> cut2_y_unclipped c p (samples (plotted c p lg)) ! i \<le> CUT2_START_HEIGHT c)"
proof -
  let ?t = "linspace 0 p 200"
  define s1 where "s1 = 1 + sin (2 * pi * (?t ! i) / p - pi / 2)"
  define s2 where "s2 = 1 + sin (2 * pi * (?t ! i) / p + pi / 2)"
  have s1: "0 \<le> s1" "s1 \<le> 2" unfolding s1_def by (rule one_plus_sin_bounds)+
  have s2: "0 \<le> s2" "s2 \<le> 2" unfolding s2_def by (rule one_plus_sin_bounds)+
  have u1: "cut1_y_unclipped c p ?t ! i = CUT1_START_HEIGHT c + amplitude1 c * s1"
    using assms(3) by (simp add: cut1_y_unclipped_nth length_linspace s1_def)
  have u2: "cut2_y_unclipped c p ?t ! i = CUT2_START_HEIGHT c + amplitude2 c * s2"
    using assms(3) by (simp add: cut2_y_unclipped_nth length_linspace s2_def)
  have up: "0 \<le> a * s \<and> a * s \<le> 2 * a" if "0 \<le> a" "0 \<le> s" "s \<le> 2" for a s :: real
    using that mult_left_mono [of s 2 a] by (simp add: mult.commute)
  have down: "2 * a \<le> a * s \<and> a * s \<le> 0" if "a \<le> 0" "0 \<le> s" "s \<le> 2" for a s :: real
    using up [of "- a" s] that by simp
  have a1_pos: "0 \<le> amplitude1 c" if "0 \<le> CUT1_ANGLE c" "CUT1_ANGLE c < 90"
    using that assms(2) tan_radians_nonneg [of "CUT1_ANGLE c"] by (simp add: amplitude1_def)
  have a2_pos: "0 \<le> amplitude2 c" if "0 \<le> CUT2_ANGLE c" "CUT2_ANGLE c < 90"
    using that assms(2) tan_radians_nonneg [of "CUT2_ANGLE c"] by (simp add: amplitude2_def)
  have a1_neg: "amplitude1 c \<le> 0" if "- 90 < CUT1_ANGLE c" "CUT1_ANGLE c < 0"
    using that assms(2) tan_radians_nonpos [of "CUT1_ANGLE c"]
    by (simp add: amplitude1_def mult_nonneg_nonpos)
  have a2_neg: "amplitude2 c \<le> 0" if "- 90 < CUT2_ANGLE c" "CUT2_ANGLE c < 0"
    using that assms(2) tan_radians_nonpos [of "CUT2_ANGLE c"]
    by (simp add: amplitude2_def mult_nonneg_nonpos)
  have A: "0 \<le> CUT1_ANGLE c \<and> CUT1_ANGLE c < 90 \<longrightarrow>
            CUT1_START_HEIGHT c \<le> cut1_y_unclipped c p ?t ! i
          \<and> cut1_y_unclipped c p ?t ! i \<le> CUT1_START_HEIGHT c + 2 * amplitude1 c"
    using up [OF a1_pos s1] by (simp add: u1)
  have B: "0 \<le> CUT2_ANGLE c \<and> CUT2_ANGLE c < 90 \<longrightarrow>
            CUT2_START_HEIGHT c \<le> cut2_y_unclipped c p ?t ! i
          \<and> cut2_y_unclipped c p ?t ! i \<le> CUT2_START_HEIGHT c + 2 * amplitude2 c"
    using up [OF a2_pos s2] by (simp add: u2)
  have C: "- 90 < CUT1_ANGLE c \<and> CUT1_ANGLE c < 0 \<longrightarrow>
            CUT1_START_HEIGHT c + 2 * amplitude1 c \<le> cut1_y_unclipped c p ?t ! i
          \<and> cut1_y_unclipped c p ?t ! i \<le> CUT1_START_HEIGHT c"
    using down [OF a1_neg s1] by (simp add: u1)
  have D: "- 90 < CUT2_ANGLE c \<and> CUT2_ANGLE c < 0 \<longrightarrow>
            CUT2_START_HEIGHT c + 2 * amplitude2 c \<le> cut2_y_unclipped c p ?t ! i
          \<and> cut2_y_unclipped c p ?t ! i \<le> CUT2_START_HEIGHT c"
    using down [OF a2_neg s2] by (simp add: u2)
  from A B C D show ?thesis
    by (simp add: plotted_samples t_first cut1_y_unclipped_first)
qed

theorem unclipped_values_range_witness:
  "3 \<le> cut1_y_unclipped default_params 53 (samples (plotted default_params 53 [])) ! 7
   \<and> cut1_y_unclipped default_params 53 (samples (plotted default_params 53 [])) ! 7 \<le> 27
   \<and> 1 \<le> cut2_y_unclipped default_params 53 (samples (plotted default_params 53 [])) ! 7
   \<and> cut2_y_unclipped default_params 53 (samples (plotted default_params 53 [])) ! 7 \<le> 25"
proof -
  have a1: "amplitude1 default_params = 12"
    by (simp add: amplitude1_def default_params_def tan_radians_45)
  have a2: "amplitude2 default_params = 12"
    by (simp add: amplitude2_def default_params_def tan_radians_45)
  show ?thesis
    using unclipped_values_range [of 53 default_params 7 "[]"]
    by (simp add: a1 a2) (simp add: default_params_def)
qed

text \<open>
  C3. The claim is that the function fails with an InvalidParameter condition when an
  axis or the height is not positive or an angle is 90 or \<open>-90\<close> degrees. The script has
  no check of its constants. With the height set to 0, the other constants as written and
  the kernel returning a perimeter (53 stands for it; the height is no argument of the
  kernel call) and no numpy call raising, the function does not exit: it reaches the plotting calls with both cut
  lines flat at 0.
\<close>

theorem zero_height_not_rejected:
  "HEIGHT (default_params\<lparr>HEIGHT := 0\<rparr>) \<le> 0
   \<and> \<not> is_Exit (fst (calculate_net_geometry (default_params\<lparr>HEIGHT := 0\<rparr>) (Inr 53) []))
   \<and> is_Plot (fst (calculate_net_geometry (default_params\<lparr>HEIGHT := 0\<rparr>) (Inr 53) []))
   \<and> cut1_y (plotted (default_params\<lparr>HEIGHT := 0\<rparr>) 53 []) = replicate 200 0
   \<and> cut2_y (plotted (default_params\<lparr>HEIGHT := 0\<rparr>) 53 []) = replicate 200 0"
proof -
  have h: "HEIGHT (default_params\<lparr>HEIGHT := 0\<rparr>) \<le> 0" by simp
  show ?thesis
    using plotted_nonpositive_height [OF h, of 53 "[]"] by (simp add: outcome_Inr)
qed

text \<open>
  C3, as the code has it. The function checks none of its constants and has no
  InvalidParameter condition: it exits, with status 1, exactly when a library call of the
  \<open>try\<close> block raises (the kernel, or numpy after it). When none raises, a height that
  is not positive is not rejected: with a perimeter \<open>p > 0\<close> the function reaches the
  plotting calls, and every one of the 200 values of both plotted cut lines equals the
  height.
\<close>

theorem exits_only_when_a_library_call_raises:
  "(is_Exit (fst (calculate_net_geometry c r lg)) \<longleftrightarrow> isl r)
   \<and> (isl r \<longrightarrow> fst (calculate_net_geometry c r lg) = Exit 1)
   \<and> (0 < p \<and> HEIGHT c \<le> 0 \<longrightarrow>
        fst (calculate_net_geometry c (Inr p) lg) = Plot (plotted c p lg)
      \<and> cut1_y (plotted c p lg) = replicate 200 (HEIGHT c)
      \<and> cut2_y (plotted c p lg) = replicate 200 (HEIGHT c))"
proof -
  have exits: "fst (calculate_net_geometry c (Inl f) lg) = Exit 1" for f
  proof (cases f)
    case (Kernel_raised e)
    then show ?thesis by (cases e) (simp add: calculate_net_geometry_def Let_def)
  next
    case (Numpy_raised q e)
    then show ?thesis by (cases e) (simp add: calculate_net_geometry_def Let_def)
  qed
  have plots: "fst (calculate_net_geometry c (Inr q) lg) = Plot (plotted c q lg)" for q
    by (simp add: outcome_Inr)
  have "is_Exit (fst (calculate_net_geometry c r lg)) \<longleftrightarrow> isl r"
    by (cases r) (simp_all add: exits outcome_Inr)
  moreover have "isl r \<longrightarrow> fst (calculate_net_geometry c r lg) = Exit 1"
    by (cases r) (simp_all add: exits)
  ultimately show ?thesis
    using plots [of p] plotted_nonpositive_height [of c p lg] by blast
qed

theorem exits_only_when_a_library_call_raises_witness:
  "is_Exit (fst (calculate_net_geometry (default_params\<lparr>HEIGHT := - 1\<rparr>)
      (Inl (Numpy_raised 53 (Exception ''OverflowError''))) []))
   \<and> fst (calculate_net_geometry (default_params\<lparr>HEIGHT := - 1\<rparr>)
      (Inl (Numpy_raised 53 (Exception ''OverflowError''))) []) = Exit 1
   \<and> cut1_y (plotted (default_params\<lparr>HEIGHT := - 1\<rparr>) 53 []) = replicate 200 (- 1)
   \<and> cut2_y (plotted (default_params\<lparr>HEIGHT := - 1\<rparr>) 53 []) = replicate 200 (- 1)"
  using exits_only_when_a_library_call_raises
    [of "default_params\<lparr>HEIGHT := - 1\<rparr>"
        "Inl (Numpy_raised 53 (Exception ''OverflowError''))" "[]" 53]
  by simp

end
